theory Spec2Isabelle
  imports Complex_Main
begin

section \<open>Python values and the process environment\<close>

text \<open>
  The development follows \<^verbatim>\<open>main.py\<close>. Everything the module obtains from outside
  (environment variables, the clock, the database client library) is an explicit argument
  of the model, and every exception is a value: a computation that may raise returns
  \<open>exn + 'a\<close>, with \<open>Inl\<close> for the raised exception.

  \<open>exn\<close> stands for instances of Python's \<^verbatim>\<open>Exception\<close>, the class that the handler
  \<^verbatim>\<open>except Exception\<close> of \<^verbatim>\<open>initialize_database\<close> catches.
\<close>

datatype token_error = Malformed | InvalidSignature | Expired

datatype exn =
    HTTPException nat string
  | TokenException token_error
  | Exception string

text \<open>\<^verbatim>\<open>str(e)\<close>, as the f-string of the error log line renders the exception.\<close>

fun str_token_error :: "token_error \<Rightarrow> string" where
  "str_token_error Malformed = ''Malformed''"
| "str_token_error InvalidSignature = ''InvalidSignature''"
| "str_token_error Expired = ''Expired''"

fun str_exn :: "exn \<Rightarrow> string" where
  "str_exn (HTTPException code detail) = detail"
| "str_exn (TokenException e) = str_token_error e"
| "str_exn (Exception msg) = msg"

text \<open>
  The status code an exception carries: only \<^verbatim>\<open>HTTPException(status_code=...)\<close> has one.
\<close>

fun status_code_of :: "exn \<Rightarrow> nat option" where
  "status_code_of (HTTPException code detail) = Some code"
| "status_code_of (TokenException e) = None"
| "status_code_of (Exception msg) = None"

type_synonym environ = "string \<rightharpoonup> string"

definition getenv :: "environ \<Rightarrow> string \<Rightarrow> string option" where
  "getenv env k = env k"

definition getenv_default :: "environ \<Rightarrow> string \<Rightarrow> string \<Rightarrow> string" where
  "getenv_default env k d = (case env k of None \<Rightarrow> d | Some v \<Rightarrow> v)"

text \<open>
  The module-level configuration (lines 39 to 42). \<^verbatim>\<open>os.getenv(name)\<close> is \<open>None\<close> for a
  variable that is not set and the variable's value, possibly the empty string, otherwise.
\<close>

record settings =
  COHERE_API_KEY :: "string option"
  SUPABASE_URL :: "string option"
  SUPABASE_KEY :: "string option"
  JWT_SECRET :: string

definition load_settings :: "environ \<Rightarrow> settings" where
  "load_settings env =
     \<lparr> COHERE_API_KEY = getenv env ''COHERE_API_KEY'',
       SUPABASE_URL = getenv env ''SUPABASE_URL'',
       SUPABASE_KEY = getenv env ''SUPABASE_KEY'',
       JWT_SECRET = getenv_default env ''JWT_SECRET'' ''default-secret'' \<rparr>"

section \<open>Database initialisation\<close>

text \<open>
  The Supabase client library is outside the repository. Its two calls are arguments of
  the model: \<open>create_client url key\<close> and the probe
  \<^verbatim>\<open>supabase.table("users").select("id").limit(1).execute()\<close>, each returning a value
  or raising.
\<close>

datatype client = Client "string option" "string option"

record database =
  create_client :: "string option \<Rightarrow> string option \<Rightarrow> exn + client"
  select_one_user :: "client \<Rightarrow> exn + unit"

datatype level = INFO | ERROR

text \<open>
  The process-wide state of the module: the configuration, the global \<^verbatim>\<open>supabase\<close>
  (initially \<open>None\<close>) and what the logger has written.
\<close>

record process =
  settings :: settings
  supabase :: "client option"
  logged :: "(level \<times> string) list"

definition logger_info :: "string \<Rightarrow> process \<Rightarrow> process" where
  "logger_info msg p = p\<lparr>logged := logged p @ [(INFO, msg)]\<rparr>"

definition logger_error :: "string \<Rightarrow> process \<Rightarrow> process" where
  "logger_error msg p = p\<lparr>logged := logged p @ [(ERROR, msg)]\<rparr>"

text \<open>The two emoji of the log lines, as their UTF-8 bytes.\<close>

definition check_mark :: string where
  "check_mark = [char_of (0xE2::nat), char_of (0x9C::nat), char_of (0x85::nat)]"

definition cross_mark :: string where
  "cross_mark = [char_of (0xE2::nat), char_of (0x9D::nat), char_of (0x8C::nat)]"

text \<open>
  The body of the \<^verbatim>\<open>try\<close> block (lines 79 to 82): the state it leaves behind and its
  outcome. The assignment to the global happens as soon as \<open>create_client\<close> returns, before
  the probe runs; when \<open>create_client\<close> raises, the global keeps its old value.
\<close>

definition initialize_database_try :: "database \<Rightarrow> process \<Rightarrow> process \<times> (exn + bool)" where
  "initialize_database_try db p =
     (case create_client db (SUPABASE_URL (settings p)) (SUPABASE_KEY (settings p)) of
        Inl e \<Rightarrow> (p, Inl e)
      | Inr c \<Rightarrow>
          (let p1 = p\<lparr>supabase := Some c\<rparr> in
           case select_one_user db c of
             Inl e \<Rightarrow> (p1, Inl e)
           | Inr u \<Rightarrow> (logger_info (check_mark @ '' Supabase connected'') p1, Inr True)))"

text \<open>The whole function: \<^verbatim>\<open>except Exception as e\<close> logs and returns \<open>False\<close>.\<close>

definition initialize_database :: "database \<Rightarrow> process \<Rightarrow> process \<times> (exn + bool)" where
  "initialize_database db p =
     (case initialize_database_try db p of
        (p', Inl e) \<Rightarrow>
          (logger_error (cross_mark @ '' Database connection failed: '' @ str_exn e) p', Inr False)
      | (p', Inr b) \<Rightarrow> (p', Inr b))"

text \<open>
  Loading the module (lines 39 to 87): the configuration is read, the global is \<open>None\<close>,
  and \<^verbatim>\<open>initialize_database()\<close> is called as a statement, its result discarded. An
  exception leaving that call would end the import, and with it the process.
\<close>

definition initial_process :: "environ \<Rightarrow> process" where
  "initial_process env = \<lparr> settings = load_settings env, supabase = None, logged = [] \<rparr>"

definition startup :: "environ \<Rightarrow> database \<Rightarrow> exn + process" where
  "startup env db =
     (case initialize_database db (initial_process env) of
        (p, Inl e) \<Rightarrow> Inl e
      | (p, Inr b) \<Rightarrow> Inr p)"

text \<open>The boolean result of the startup probe, which the module does not store.\<close>

definition startup_probe_result :: "environ \<Rightarrow> database \<Rightarrow> exn + bool" where
  "startup_probe_result env db = snd (initialize_database db (initial_process env))"

section \<open>The clock and \<^verbatim>\<open>datetime.isoformat\<close>\<close>

text \<open>
  \<^verbatim>\<open>datetime.utcnow()\<close> returns a naive \<^verbatim>\<open>datetime\<close> object. Python constructs such an
  object only with its fields in range; \<open>valid_datetime\<close> states those ranges.
\<close>

record datetime =
  year :: nat
  month :: nat
  day :: nat
  hour :: nat
  minute :: nat
  second :: nat
  microsecond :: nat

definition is_leap :: "nat \<Rightarrow> bool" where
  "is_leap y = (y mod 4 = 0 \<and> (y mod 400 = 0 \<or> y mod 100 \<noteq> 0))"

definition days_in_month :: "nat \<Rightarrow> nat \<Rightarrow> nat" where
  "days_in_month y m =
     (if m = 2 then (if is_leap y then 29 else 28)
      else if m = 4 \<or> m = 6 \<or> m = 9 \<or> m = 11 then 30 else 31)"

definition valid_datetime :: "datetime \<Rightarrow> bool" where
  "valid_datetime dt =
     (1 \<le> year dt \<and> year dt \<le> 9999 \<and> 1 \<le> month dt \<and> month dt \<le> 12 \<and>
      1 \<le> day dt \<and> day dt \<le> days_in_month (year dt) (month dt) \<and>
      hour dt < 24 \<and> minute dt < 60 \<and> second dt < 60 \<and> microsecond dt < 1000000)"

definition digit_char :: "nat \<Rightarrow> char" where
  "digit_char d = char_of (48 + d)"

text \<open>The decimal digits of a number, as \<^verbatim>\<open>%d\<close> prints them.\<close>

fun dec :: "nat \<Rightarrow> string" where
  "dec n = (if n < 10 then [digit_char n] else dec (n div 10) @ [digit_char (n mod 10)])"

declare dec.simps [simp del]

text \<open>
  \<^verbatim>\<open>%0wd\<close>: at least \<open>w\<close> characters, padded with zeros on the left; a number with
  more digits is printed in full.
\<close>

definition fmt_0d :: "nat \<Rightarrow> nat \<Rightarrow> string" where
  "fmt_0d w n = replicate (w - length (dec n)) (CHR ''0'') @ dec n"

text \<open>
  \<^verbatim>\<open>datetime.isoformat()\<close> of a naive datetime with the default separator and
  \<^verbatim>\<open>timespec='auto'\<close>: the microseconds are printed only when they are not zero.
\<close>

definition isoformat :: "datetime \<Rightarrow> string" where
  "isoformat dt =
     fmt_0d 4 (year dt) @ ''-'' @ fmt_0d 2 (month dt) @ ''-'' @ fmt_0d 2 (day dt) @ ''T'' @
     fmt_0d 2 (hour dt) @ '':'' @ fmt_0d 2 (minute dt) @ '':'' @ fmt_0d 2 (second dt) @
     (if microsecond dt = 0 then [] else ''.'' @ fmt_0d 6 (microsecond dt))"

subsection \<open>A checker for ISO-8601 timestamps\<close>

text \<open>
  The extended format \<^verbatim>\<open>YYYY-MM-DDThh:mm:ss\<close> with an optional decimal fraction of the
  second: the digits are digits, the separators are in place, and the fields denote a
  calendar date and a time of day.
\<close>

definition is_digit :: "char \<Rightarrow> bool" where
  "is_digit c = (48 \<le> (of_char c :: nat) \<and> (of_char c :: nat) \<le> 57)"

definition digit_val :: "char \<Rightarrow> nat" where
  "digit_val c = of_char c - 48"

definition number :: "string \<Rightarrow> nat" where
  "number s = foldl (\<lambda>a c. 10 * a + digit_val c) 0 s"

definition field :: "nat \<Rightarrow> nat \<Rightarrow> string \<Rightarrow> nat option" where
  "field i w s =
     (let t = take w (drop i s)
      in if length t = w \<and> list_all is_digit t then Some (number t) else None)"

definition sep_at :: "nat \<Rightarrow> char \<Rightarrow> string \<Rightarrow> bool" where
  "sep_at i c s = (take 1 (drop i s) = [c])"

definition fraction_ok :: "string \<Rightarrow> bool" where
  "fraction_ok r = (r = [] \<or> (take 1 r = ''.'' \<and> tl r \<noteq> [] \<and> list_all is_digit (tl r)))"

definition iso8601_wf :: "string \<Rightarrow> bool" where
  "iso8601_wf s =
     (case (field 0 4 s, field 5 2 s, field 8 2 s, field 11 2 s, field 14 2 s, field 17 2 s) of
        (Some y, Some m, Some d, Some h, Some mi, Some se) \<Rightarrow>
          sep_at 4 (CHR ''-'') s \<and> sep_at 7 (CHR ''-'') s \<and> sep_at 10 (CHR ''T'') s \<and>
          sep_at 13 (CHR '':'') s \<and> sep_at 16 (CHR '':'') s \<and>
          1 \<le> m \<and> m \<le> 12 \<and> 1 \<le> d \<and> d \<le> days_in_month y m \<and>
          h < 24 \<and> mi < 60 \<and> se < 60 \<and> fraction_ok (drop 19 s)
      | _ \<Rightarrow> False)"

section \<open>Routes\<close>

text \<open>
  A handler returns a Python dict, modelled as the association list of its items in
  the order of the dict literal. \<^verbatim>\<open>x is not None\<close> is \<open>x \<noteq> None\<close>.
\<close>

datatype jval = JBool bool | JStr string

type_synonym json = "(string \<times> jval) list"

definition root :: "process \<Rightarrow> json" where
  "root p =
     [(''success'', JBool True),
      (''message'', JStr ''InsideOut Chatbot API is running on Railway!''),
      (''database_connected'', JBool (supabase p \<noteq> None)),
      (''ai_available'', JBool (COHERE_API_KEY (settings p) \<noteq> None))]"

definition health :: "process \<Rightarrow> datetime \<Rightarrow> json" where
  "health p utcnow =
     [(''status'', JStr ''ok''),
      (''database_connected'', JBool (supabase p \<noteq> None)),
      (''ai_available'', JBool (COHERE_API_KEY (settings p) \<noteq> None)),
      (''time'', JStr (isoformat utcnow))]"

definition party_popper :: string where
  "party_popper =
     [char_of (0xF0::nat), char_of (0x9F::nat), char_of (0x8E::nat), char_of (0x89::nat)]"

definition test :: string where
  "test = ''<h1>Railway API works '' @ party_popper @ ''</h1>''"

text \<open>
  The three registered routes. None of the decorators sets a status code and none of the
  handlers raises, so the framework answers each with status 200: a returned dict as a
  JSON body, the \<^verbatim>\<open>HTMLResponse\<close> as it is. No handler assigns a global, so the
  process state after a request is the state before it. The state of the database at
  the time of the request is an argument that no handler reads.
\<close>

datatype route = GET_root | GET_health | GET_test

datatype body = JSONBody json | HTMLBody string

record response =
  status_code :: nat
  content :: body

fun app :: "process \<Rightarrow> database \<Rightarrow> datetime \<Rightarrow> route \<Rightarrow> process \<times> response" where
  "app p db utcnow GET_root = (p, \<lparr>status_code = 200, content = JSONBody (root p)\<rparr>)"
| "app p db utcnow GET_health = (p, \<lparr>status_code = 200, content = JSONBody (health p utcnow)\<rparr>)"
| "app p db utcnow GET_test = (p, \<lparr>status_code = 200, content = HTMLBody test\<rparr>)"

text \<open>A run of the process: the requests it serves one after the other.\<close>

fun serve :: "process \<Rightarrow> (database \<times> datetime \<times> route) list \<Rightarrow> response list" where
  "serve p [] = []"
| "serve p ((db, utcnow, r) # rs) = (case app p db utcnow r of (p', resp) \<Rightarrow> resp # serve p' rs)"

text \<open>Reading a field of a JSON response.\<close>

fun json_field :: "string \<Rightarrow> response \<Rightarrow> jval option" where
  "json_field k resp = (case content resp of JSONBody j \<Rightarrow> map_of j k | HTMLBody h \<Rightarrow> None)"

section \<open>Token service\<close>

subsection \<open>The token library\<close>

text \<open>
  The payload that \<^verbatim>\<open>create_access_token\<close> builds: a dict with the keys
  \<^verbatim>\<open>user_id\<close>, \<^verbatim>\<open>username\<close> and \<^verbatim>\<open>exp\<close> (the field \<open>exp_claim\<close>, since
  \<open>exp\<close> is the exponential function). Timestamps are seconds as real numbers; the
  rounding of Python's floats is not modelled.
\<close>

record claims =
  user_id :: string
  username :: string
  exp_claim :: real

datatype algorithm = HS256

text \<open>
  The primitives of the token library, which the model leaves open: how a payload is
  serialised into the signed part of a token and read back, how the signed part and the
  signature are joined into the token string and split again, and the keyed signature
  function of each algorithm.
\<close>

record jwt_library =
  serialize :: "claims \<Rightarrow> string"
  parse_claims :: "string \<Rightarrow> claims option"
  join_token :: "string \<Rightarrow> string \<Rightarrow> string"
  split_token :: "string \<Rightarrow> (string \<times> string) option"
  sign :: "algorithm \<Rightarrow> string \<Rightarrow> string \<Rightarrow> string"

text \<open>
  Modelled from the spec: \<^verbatim>\<open>jwt.encode\<close> of the PyJWT library, which is not part of the
  repository's sources. The spec's \<^verbatim>\<open>issue\<close> "serializes and signs [the claim] using a
  symmetric shared secret with a standard signature algorithm"; the result is "an opaque
  string token", and no failure is described.
\<close>

definition jwt_encode :: "jwt_library \<Rightarrow> claims \<Rightarrow> string \<Rightarrow> algorithm \<Rightarrow> exn + string" where
  "jwt_encode L payload key alg =
     (let signed_part = serialize L payload
      in Inr (join_token L signed_part (sign L alg key signed_part)))"

text \<open>
  Modelled from the spec: \<^verbatim>\<open>jwt.decode\<close> of the PyJWT library, which is not part of the
  repository's sources. The spec's \<^verbatim>\<open>verify\<close> "decodes and checks the signature and
  expiry. Fails with InvalidSignature when the signature does not match (tampered or
  wrong secret), fails with Expired when expires_at has passed, fails with Malformed when
  the token cannot be parsed as a claim structure. On success returns the claim." A token
  is valid only when its expiry "is strictly in the future relative to verification
  time". The checks run in the order of that sentence: decoding, signature, expiry.
\<close>

definition jwt_decode ::
  "jwt_library \<Rightarrow> string \<Rightarrow> string \<Rightarrow> algorithm list \<Rightarrow> real \<Rightarrow> exn + claims" where
  "jwt_decode L token key algorithms now =
     (case split_token L token of
        None \<Rightarrow> Inl (TokenException Malformed)
      | Some (signed_part, signature) \<Rightarrow>
          (case parse_claims L signed_part of
             None \<Rightarrow> Inl (TokenException Malformed)
           | Some payload \<Rightarrow>
               if \<not> list_ex (\<lambda>alg. signature = sign L alg key signed_part) algorithms
               then Inl (TokenException InvalidSignature)
               else if exp_claim payload \<le> now then Inl (TokenException Expired)
               else Inr payload))"

subsection \<open>The functions of \<^verbatim>\<open>main.py\<close>\<close>

text \<open>
  \<open>utcnow_timestamp\<close> is the value of \<^verbatim>\<open>datetime.utcnow().timestamp()\<close> at the call,
  \<open>now\<close> the time at which the library checks the expiry. Python reads the naive
  datetime of \<^verbatim>\<open>utcnow()\<close> as local time, so that value is the POSIX time of the call
  only where the local time zone is UTC; the model takes the value as it is.
\<close>

definition create_access_token ::
  "jwt_library \<Rightarrow> settings \<Rightarrow> real \<Rightarrow> string \<Rightarrow> string \<Rightarrow> exn + string" where
  "create_access_token L cfg utcnow_timestamp uid uname =
     (let payload = \<lparr> user_id = uid, username = uname, exp_claim = utcnow_timestamp + 86400 \<rparr>
      in jwt_encode L payload (JWT_SECRET cfg) HS256)"

definition verify_token :: "jwt_library \<Rightarrow> settings \<Rightarrow> real \<Rightarrow> string \<Rightarrow> exn + claims" where
  "verify_token L cfg now token = jwt_decode L token (JWT_SECRET cfg) [HS256] now"

text \<open>
  \<^verbatim>\<open>HTTPBearer(auto_error=False)\<close> hands the dependency either \<open>None\<close> (no bearer
  credentials in the request) or the credentials object, which is always truthy.
\<close>

record HTTPAuthorizationCredentials =
  scheme :: string
  credentials :: string

definition get_current_user ::
  "jwt_library \<Rightarrow> settings \<Rightarrow> real \<Rightarrow> HTTPAuthorizationCredentials option \<Rightarrow> exn + claims" where
  "get_current_user L cfg now creds =
     (case creds of
        None \<Rightarrow> Inl (HTTPException 401 ''Authorization header required'')
      | Some c \<Rightarrow> verify_token L cfg now (credentials c))"

text \<open>
  The clock reading of \<^verbatim>\<open>create_access_token\<close>. \<^verbatim>\<open>datetime.utcnow()\<close> is the UTC
  wall clock as a naive datetime, and \<^verbatim>\<open>timestamp()\<close> reads a naive datetime as local
  time. At POSIX time \<open>t\<close>, on a host whose local zone is \<open>utc_offset\<close> seconds east of
  UTC, \<^verbatim>\<open>datetime.utcnow().timestamp()\<close> is therefore \<open>t - utc_offset\<close>.
\<close>

definition naive_utc_timestamp :: "real \<Rightarrow> real \<Rightarrow> real" where
  "naive_utc_timestamp t utc_offset = t - utc_offset"

subsection \<open>Tokens that split back\<close>


section \<open>Sample inputs\<close>

text \<open>
  Three states of the database (reachable, configured but unreachable, not configured)
  and an environment, used to evaluate the model at concrete inputs.
\<close>

definition db_up :: database where
  "db_up = \<lparr> create_client = (\<lambda>url key. Inr (Client url key)),
             select_one_user = (\<lambda>c. Inr ()) \<rparr>"

definition db_unreachable :: database where
  "db_unreachable =
     \<lparr> create_client = (\<lambda>url key. Inr (Client url key)),
       select_one_user = (\<lambda>c. Inl (Exception ''connection refused'')) \<rparr>"

definition db_unconfigured :: database where
  "db_unconfigured =
     \<lparr> create_client = (\<lambda>url key. Inl (Exception ''supabase_url is required'')),
       select_one_user = (\<lambda>c. Inr ()) \<rparr>"

definition env_sample :: environ where
  "env_sample =
     [''SUPABASE_URL'' \<mapsto> ''https://db.example'', ''SUPABASE_KEY'' \<mapsto> ''k'',
      ''COHERE_API_KEY'' \<mapsto> '''']"

definition dt_sample :: datetime where
  "dt_sample =
     \<lparr> year = 2024, month = 2, day = 29, hour = 23, minute = 59, second = 59,
       microsecond = 5 \<rparr>"

text \<open>
  The spec's reading of the credential flag: the configuration value is a non-empty
  string.
\<close>

definition credential_non_empty :: "environ \<Rightarrow> bool" where
  "credential_non_empty env =
     (case getenv env ''COHERE_API_KEY'' of None \<Rightarrow> False | Some v \<Rightarrow> v \<noteq> [])"

text \<open>
  A small token library for evaluating the token functions: the token is the signed part
  and the signature joined by the last dot, and one payload has a serialisation that is
  read back.
\<close>

definition split_last_dot :: "string \<Rightarrow> (string \<times> string) option" where
  "split_last_dot s =
     (if CHR ''.'' \<in> set s
      then Some (rev (tl (dropWhile (\<lambda>c. c \<noteq> CHR ''.'') (rev s))),
                 rev (takeWhile (\<lambda>c. c \<noteq> CHR ''.'') (rev s)))
      else None)"

definition sample_claims :: claims where
  "sample_claims = \<lparr> user_id = ''u1'', username = ''alice'', exp_claim = 86500 \<rparr>"

definition sample_library :: jwt_library where
  "sample_library =
     \<lparr> serialize = (\<lambda>c. if c = sample_claims then ''alice-claims'' else ''other-claims''),
       parse_claims = (\<lambda>s. if s = ''alice-claims'' then Some sample_claims else None),
       join_token = (\<lambda>signed_part signature. signed_part @ ''.'' @ signature),
       split_token = split_last_dot,
       sign = (\<lambda>alg key msg. ''mac['' @ key @ '']['' @ msg @ '']'') \<rparr>"

definition sample_token :: string where
  "sample_token = ''alice-claims.mac[default-secret][alice-claims]''"

section \<open>Properties of the database initialisation\<close>

lemma initialize_database_result:
  "snd (initialize_database db p) =
     Inr (case create_client db (SUPABASE_URL (settings p)) (SUPABASE_KEY (settings p)) of
            Inl e \<Rightarrow> False
          | Inr c \<Rightarrow> (case select_one_user db c of Inl e \<Rightarrow> False | Inr u \<Rightarrow> True))"
  by (simp add: initialize_database_def initialize_database_try_def Let_def split: sum.split)

lemma initialize_database_supabase:
  "supabase (fst (initialize_database db p)) =
     (case create_client db (SUPABASE_URL (settings p)) (SUPABASE_KEY (settings p)) of
        Inl e \<Rightarrow> supabase p
      | Inr c \<Rightarrow> Some c)"
  by (simp add: initialize_database_def initialize_database_try_def Let_def
        logger_info_def logger_error_def split: sum.split)

lemma initialize_database_settings:
  "settings (fst (initialize_database db p)) = settings p"
  by (simp add: initialize_database_def initialize_database_try_def Let_def
        logger_info_def logger_error_def split: sum.split)

lemma startup_Inr: "startup env db = Inr (fst (initialize_database db (initial_process env)))"
proof -
  obtain p' r where pr: "initialize_database db (initial_process env) = (p', r)"
    by (cases "initialize_database db (initial_process env)")
  have "snd (initialize_database db (initial_process env)) \<noteq> Inl e" for e
    by (simp add: initialize_database_result)
  with pr obtain b where "r = Inr b" by (cases r) auto
  with pr show ?thesis by (simp add: startup_def)
qed

text \<open>
  Claim C6. The startup probe returns \<open>True\<close> when the client is created and the read
  succeeds, and \<open>False\<close> when the client creation raises or the read raises. No exception
  leaves \<open>initialize_database\<close>, so loading the module always completes.
\<close>

theorem initialize_database_catches:
  "(\<forall>c u. create_client db (SUPABASE_URL (settings p)) (SUPABASE_KEY (settings p)) = Inr c \<and>
          select_one_user db c = Inr u \<longrightarrow> snd (initialize_database db p) = Inr True) \<and>
   (\<forall>e. create_client db (SUPABASE_URL (settings p)) (SUPABASE_KEY (settings p)) = Inl e
          \<longrightarrow> snd (initialize_database db p) = Inr False) \<and>
   (\<forall>c e. create_client db (SUPABASE_URL (settings p)) (SUPABASE_KEY (settings p)) = Inr c \<and>
          select_one_user db c = Inl e \<longrightarrow> snd (initialize_database db p) = Inr False) \<and>
   (\<forall>e. snd (initialize_database db p) \<noteq> Inl e) \<and>
   (\<exists>p'. startup env db = Inr p')"
  by (simp add: initialize_database_result startup_Inr)

theorem initialize_database_catches_witness:
  "snd (initialize_database db_up (initial_process env_sample)) = Inr True \<and>
   snd (initialize_database db_unconfigured (initial_process env_sample)) = Inr False \<and>
   snd (initialize_database db_unreachable (initial_process env_sample)) = Inr False"
proof -
  have up:
    "create_client db_up (SUPABASE_URL (settings (initial_process env_sample)))
       (SUPABASE_KEY (settings (initial_process env_sample)))
     = Inr (Client (Some ''https://db.example'') (Some ''k'')) \<and>
     select_one_user db_up (Client (Some ''https://db.example'') (Some ''k'')) = Inr ()"
    by (simp add: db_up_def initial_process_def load_settings_def getenv_def env_sample_def)
  have unconf:
    "create_client db_unconfigured (SUPABASE_URL (settings (initial_process env_sample)))
       (SUPABASE_KEY (settings (initial_process env_sample)))
     = Inl (Exception ''supabase_url is required'')"
    by (simp add: db_unconfigured_def)
  have unreach:
    "create_client db_unreachable (SUPABASE_URL (settings (initial_process env_sample)))
       (SUPABASE_KEY (settings (initial_process env_sample)))
     = Inr (Client (Some ''https://db.example'') (Some ''k'')) \<and>
     select_one_user db_unreachable (Client (Some ''https://db.example'') (Some ''k''))
     = Inl (Exception ''connection refused'')"
    by (simp add: db_unreachable_def initial_process_def load_settings_def getenv_def
          env_sample_def)
  from initialize_database_catches [of db_up "initial_process env_sample"] up
  have 1: "snd (initialize_database db_up (initial_process env_sample)) = Inr True"
    by blast
  from initialize_database_catches [of db_unconfigured "initial_process env_sample"] unconf
  have 2: "snd (initialize_database db_unconfigured (initial_process env_sample)) = Inr False"
    by blast
  from initialize_database_catches [of db_unreachable "initial_process env_sample"] unreach
  have 3: "snd (initialize_database db_unreachable (initial_process env_sample)) = Inr False"
    by blast
  from 1 2 3 show ?thesis by simp
qed

section \<open>Properties of the status routes\<close>

lemma startup_settings:
  assumes "startup env db = Inr p"
  shows "settings p = load_settings env"
proof -
  from assms have "p = fst (initialize_database db (initial_process env))"
    by (simp add: startup_Inr)
  then show ?thesis
    by (simp add: initialize_database_settings initial_process_def)
qed

lemma startup_supabase:
  assumes "startup env db = Inr p"
  shows "supabase p \<noteq> None \<longleftrightarrow>
    (\<exists>c. create_client db (getenv env ''SUPABASE_URL'') (getenv env ''SUPABASE_KEY'') = Inr c)"
proof -
  from assms have "p = fst (initialize_database db (initial_process env))"
    by (simp add: startup_Inr)
  then show ?thesis
    by (simp add: initialize_database_supabase initial_process_def load_settings_def
          split: sum.split)
qed

lemma startup_sample_unreachable:
  "startup env_sample db_unreachable =
     Inr \<lparr> settings = load_settings env_sample,
           supabase = Some (Client (Some ''https://db.example'') (Some ''k'')),
           logged = [(ERROR, cross_mark @ '' Database connection failed: connection refused'')] \<rparr>"
  by (simp add: startup_def initialize_database_def initialize_database_try_def Let_def
        db_unreachable_def initial_process_def load_settings_def getenv_def env_sample_def
        logger_error_def)

lemma root_flags:
  "map_of (root p) ''database_connected'' = Some (JBool (supabase p \<noteq> None))"
  "map_of (root p) ''ai_available'' = Some (JBool (COHERE_API_KEY (settings p) \<noteq> None))"
  by (simp_all add: root_def)

lemma health_flags:
  "map_of (health p t) ''database_connected'' = Some (JBool (supabase p \<noteq> None))"
  "map_of (health p t) ''ai_available'' = Some (JBool (COHERE_API_KEY (settings p) \<noteq> None))"
  by (simp_all add: health_def)

lemma app_state: "fst (app p db t r) = p"
  by (cases r) simp_all

lemma app_database_connected:
  "json_field ''database_connected'' (snd (app p db t r)) =
     (if r = GET_test then None else Some (JBool (supabase p \<noteq> None)))"
  by (cases r) (simp_all add: root_flags health_flags)

lemma serve_database_connected:
  "list_all (\<lambda>resp. status_code resp = 200 \<and>
                json_field ''database_connected'' resp \<in>
                  {None, Some (JBool (supabase p \<noteq> None))})
     (serve p requests)"
proof (induction requests)
  case Nil
  then show ?case by simp
next
  case (Cons x requests)
  obtain db t r where x: "x = (db, t, r)" by (cases x)
  obtain resp where a: "app p db t r = (p, resp)"
    using app_state [of p db t r] by (cases "app p db t r") simp
  have "status_code (snd (app p db t r)) = 200" by (cases r) simp_all
  with a have 1: "status_code resp = 200" by simp
  from app_database_connected [of p db t r] a
  have 2: "json_field ''database_connected'' resp \<in> {None, Some (JBool (supabase p \<noteq> None))}"
    by (simp del: json_field.simps)
  from 1 2 Cons.IH show ?case by (simp add: x a del: json_field.simps)
qed

text \<open>
  Claim C1, evaluated where it fails. The client is created and the probe read raises:
  the startup probe returns \<open>False\<close>, and both routes report
  \<^verbatim>\<open>database_connected\<close> as true, since they test the client object and not the
  result of the probe.
\<close>

theorem database_connected_after_failed_probe:
  "startup_probe_result env_sample db_unreachable = Inr False \<and>
   (case startup env_sample db_unreachable of
      Inl e \<Rightarrow> False
    | Inr p \<Rightarrow>
        json_field ''database_connected'' (snd (app p db_unreachable dt_sample GET_health))
          = Some (JBool True) \<and>
        json_field ''database_connected'' (snd (app p db_unreachable dt_sample GET_root))
          = Some (JBool True))"
  by (simp add: startup_sample_unreachable root_flags health_flags startup_probe_result_def
        initialize_database_result)
     (simp add: db_unreachable_def)

text \<open>
  Staleness of the flag. After startup every response has status 200, and every
  response of \<^verbatim>\<open>GET /\<close> and \<^verbatim>\<open>GET /health\<close> reports the same
  \<^verbatim>\<open>database_connected\<close>: whether \<open>create_client\<close> returned at startup. The state of
  the database at the time of a request plays no part.
\<close>

theorem database_connected_stale:
  "startup env db = Inr p \<Longrightarrow>
   list_all (\<lambda>resp. status_code resp = 200 \<and>
                json_field ''database_connected'' resp \<in>
                  {None,
                   Some (JBool (\<exists>c. create_client db (getenv env ''SUPABASE_URL'')
                                       (getenv env ''SUPABASE_KEY'') = Inr c))})
     (serve p requests)"
  using serve_database_connected [of p requests] startup_supabase [of env db p] by simp

theorem database_connected_stale_witness:
  "map (json_field ''database_connected'')
     (serve (projr (startup env_sample db_up))
        [(db_up, dt_sample, GET_health), (db_unreachable, dt_sample, GET_root),
         (db_unconfigured, dt_sample, GET_test), (db_unconfigured, dt_sample, GET_health)])
   = [Some (JBool True), Some (JBool True), None, Some (JBool True)]"
proof -
  have s: "startup env_sample db_up = Inr (projr (startup env_sample db_up))"
    by (simp add: startup_Inr)
  have c: "\<exists>c. create_client db_up (getenv env_sample ''SUPABASE_URL'')
                 (getenv env_sample ''SUPABASE_KEY'') = Inr c"
    by (simp add: db_up_def)
  from database_connected_stale [OF s, of
        "[(db_up, dt_sample, GET_health), (db_unreachable, dt_sample, GET_root),
          (db_unconfigured, dt_sample, GET_test), (db_unconfigured, dt_sample, GET_health)]"] c
  show ?thesis by (auto simp add: root_def health_def)
qed

text \<open>
  Claim C7, as stated, fails. With \<^verbatim>\<open>COHERE_API_KEY\<close> set to the empty string the
  credential is not a non-empty string, and both routes report \<^verbatim>\<open>ai_available\<close> as
  true.
\<close>

theorem ai_available_empty_credential:
  "getenv env_sample ''COHERE_API_KEY'' = Some '''' \<and> \<not> credential_non_empty env_sample \<and>
   (case startup env_sample db_unreachable of
      Inl e \<Rightarrow> False
    | Inr p \<Rightarrow>
        json_field ''ai_available'' (snd (app p db_unreachable dt_sample GET_health))
          = Some (JBool True) \<and>
        json_field ''ai_available'' (snd (app p db_unreachable dt_sample GET_root))
          = Some (JBool True))"
  by (simp add: startup_sample_unreachable root_flags health_flags credential_non_empty_def)
     (simp add: load_settings_def getenv_def env_sample_def)

text \<open>
  Claim C7, amended. For every configuration, \<^verbatim>\<open>ai_available\<close> of \<^verbatim>\<open>GET /\<close> and of
  \<^verbatim>\<open>GET /health\<close> is true if and only if the variable \<^verbatim>\<open>COHERE_API_KEY\<close> is set,
  whatever its value, the empty string included.
\<close>

theorem ai_available_iff_set:
  "startup env db = Inr p \<Longrightarrow>
   json_field ''ai_available'' (snd (app p db' t GET_root))
     = Some (JBool (getenv env ''COHERE_API_KEY'' \<noteq> None)) \<and>
   json_field ''ai_available'' (snd (app p db' t GET_health))
     = Some (JBool (getenv env ''COHERE_API_KEY'' \<noteq> None))"
  by (simp add: root_flags health_flags startup_settings load_settings_def)

theorem ai_available_iff_set_witness:
  "json_field ''ai_available''
     (snd (app (projr (startup env_sample db_unreachable)) db_up dt_sample GET_health))
   = Some (JBool True)"
proof -
  have "startup env_sample db_unreachable = Inr (projr (startup env_sample db_unreachable))"
    by (simp add: startup_sample_unreachable)
  from ai_available_iff_set [OF this, of db_up dt_sample]
  show ?thesis by (simp add: getenv_def env_sample_def)
qed

text \<open>
  Claim C9. In every process state, \<^verbatim>\<open>GET /\<close> and \<^verbatim>\<open>GET /health\<close> report the same
  \<^verbatim>\<open>database_connected\<close> and the same \<^verbatim>\<open>ai_available\<close>, whatever the time and the
  state of the database at either request: each flag is the same expression over the
  process state in both handlers.
\<close>

theorem root_health_same_flags:
  "json_field ''database_connected'' (snd (app p db t GET_root))
     = Some (JBool (supabase p \<noteq> None)) \<and>
   json_field ''database_connected'' (snd (app p db' t' GET_health))
     = Some (JBool (supabase p \<noteq> None)) \<and>
   json_field ''ai_available'' (snd (app p db t GET_root))
     = Some (JBool (COHERE_API_KEY (settings p) \<noteq> None)) \<and>
   json_field ''ai_available'' (snd (app p db' t' GET_health))
     = Some (JBool (COHERE_API_KEY (settings p) \<noteq> None))"
  by (simp add: root_flags health_flags)

section \<open>Properties of \<^verbatim>\<open>GET /health\<close>\<close>

lemma digit_char_is_digit: "d < 10 \<Longrightarrow> is_digit (digit_char d)"
  by (simp add: is_digit_def digit_char_def)

lemma digit_val_digit_char: "d < 10 \<Longrightarrow> digit_val (digit_char d) = d"
  by (simp add: digit_val_def digit_char_def)

lemma number_append: "number (xs @ ys) = foldl (\<lambda>a c. 10 * a + digit_val c) (number xs) ys"
  by (simp add: number_def)

lemma number_zeros: "number (replicate k (CHR ''0'')) = 0"
  by (induction k) (simp_all add: number_def digit_val_def)

lemma zeros_digits: "list_all is_digit (replicate k (CHR ''0''))"
  by (induction k) (simp_all add: is_digit_def)

lemma dec_small: "n < 10 \<Longrightarrow> dec n = [digit_char n]"
  by (subst dec.simps) simp

lemma dec_large: "\<not> n < 10 \<Longrightarrow> dec n = dec (n div 10) @ [digit_char (n mod 10)]"
  by (subst dec.simps) simp

lemma dec_digits: "list_all is_digit (dec n)"
proof (induction n rule: dec.induct)
  case (1 n)
  show ?case
  proof (cases "n < 10")
    case True
    then show ?thesis by (simp add: dec_small digit_char_is_digit)
  next
    case False
    with "1" show ?thesis by (simp add: dec_large digit_char_is_digit)
  qed
qed

lemma number_dec: "number (dec n) = n"
proof (induction n rule: dec.induct)
  case (1 n)
  show ?case
  proof (cases "n < 10")
    case True
    then show ?thesis by (simp add: dec_small number_def digit_val_digit_char)
  next
    case False
    with "1" have "number (dec (n div 10)) = n div 10" by simp
    with False show ?thesis
      by (simp add: dec_large number_append digit_val_digit_char)
  qed
qed

lemma length_dec: "n < 10 ^ Suc w \<Longrightarrow> length (dec n) \<le> Suc w"
proof (induction w arbitrary: n)
  case 0
  then show ?case by (simp add: dec_small)
next
  case (Suc w)
  show ?case
  proof (cases "n < 10")
    case True
    then show ?thesis by (simp add: dec_small)
  next
    case False
    from Suc.prems have "n div 10 < 10 ^ Suc w" by (simp add: less_mult_imp_div_less mult.commute)
    from Suc.IH [OF this] False show ?thesis by (simp add: dec_large)
  qed
qed

lemma fmt_0d_props:
  assumes "n < 10 ^ Suc w"
  shows "length (fmt_0d (Suc w) n) = Suc w"
    and "list_all is_digit (fmt_0d (Suc w) n)"
    and "number (fmt_0d (Suc w) n) = n"
proof -
  from length_dec [OF assms] show "length (fmt_0d (Suc w) n) = Suc w"
    by (simp add: fmt_0d_def)
  show "list_all is_digit (fmt_0d (Suc w) n)"
    by (simp add: fmt_0d_def dec_digits zeros_digits)
  show "number (fmt_0d (Suc w) n) = n"
    using number_dec [of n] by (simp add: fmt_0d_def number_append number_zeros) (simp add: number_def)

qed

lemma field_at:
  "length pre = i \<Longrightarrow> length f = w \<Longrightarrow> list_all is_digit f \<Longrightarrow>
   field i w (pre @ f @ post) = Some (number f)"
  by (simp add: field_def)

lemma sep_at_at: "length pre = i \<Longrightarrow> sep_at i c (pre @ c # post)"
  by (simp add: sep_at_def)

text \<open>
  The string that \<open>isoformat\<close> prints for a datetime within Python's ranges passes the
  checker: each field is read back at its offset, between the separators.
\<close>

lemma isoformat_wf:
  assumes "valid_datetime dt"
  shows "iso8601_wf (isoformat dt)"
proof -
  define Y where "Y = fmt_0d 4 (year dt)"
  define M where "M = fmt_0d 2 (month dt)"
  define D where "D = fmt_0d 2 (day dt)"
  define H where "H = fmt_0d 2 (hour dt)"
  define Mi where "Mi = fmt_0d 2 (minute dt)"
  define S where "S = fmt_0d 2 (second dt)"
  define F where "F = (if microsecond dt = 0 then [] else ''.'' @ fmt_0d 6 (microsecond dt))"
  from assms have r: "year dt < 10 ^ Suc 3" "month dt < 10 ^ Suc 1" "day dt < 10 ^ Suc 1"
    "hour dt < 10 ^ Suc 1" "minute dt < 10 ^ Suc 1" "second dt < 10 ^ Suc 1"
    "microsecond dt < 10 ^ Suc 5"
    by (auto simp add: valid_datetime_def days_in_month_def split: if_splits)
  have four: "Suc 3 = 4" and two: "Suc 1 = 2" and six: "Suc 5 = 6" by simp_all
  note pY = fmt_0d_props [OF r(1), unfolded four, folded Y_def]
  note pM = fmt_0d_props [OF r(2), unfolded two, folded M_def]
  note pD = fmt_0d_props [OF r(3), unfolded two, folded D_def]
  note pH = fmt_0d_props [OF r(4), unfolded two, folded H_def]
  note pMi = fmt_0d_props [OF r(5), unfolded two, folded Mi_def]
  note pS = fmt_0d_props [OF r(6), unfolded two, folded S_def]
  note pF = fmt_0d_props [OF r(7), unfolded six]
  let ?s = "isoformat dt"
  have s: "?s = Y @ ''-'' @ M @ ''-'' @ D @ ''T'' @ H @ '':'' @ Mi @ '':'' @ S @ F"
    by (simp add: isoformat_def Y_def M_def D_def H_def Mi_def S_def F_def)
  have fY: "field 0 4 ?s = Some (year dt)"
    using field_at [of "[]" 0 Y 4] pY by (simp add: s)
  have fM: "field 5 2 ?s = Some (month dt)"
    using field_at [of "Y @ ''-''" 5 M 2] pY pM by (simp add: s)
  have fD: "field 8 2 ?s = Some (day dt)"
    using field_at [of "Y @ ''-'' @ M @ ''-''" 8 D 2] pY pM pD by (simp add: s)
  have fH: "field 11 2 ?s = Some (hour dt)"
    using field_at [of "Y @ ''-'' @ M @ ''-'' @ D @ ''T''" 11 H 2] pY pM pD pH by (simp add: s)
  have fMi: "field 14 2 ?s = Some (minute dt)"
    using field_at [of "Y @ ''-'' @ M @ ''-'' @ D @ ''T'' @ H @ '':''" 14 Mi 2] pY pM pD pH pMi
    by (simp add: s)
  have fS: "field 17 2 ?s = Some (second dt)"
    using field_at [of "Y @ ''-'' @ M @ ''-'' @ D @ ''T'' @ H @ '':'' @ Mi @ '':''" 17 S 2]
      pY pM pD pH pMi pS
    by (simp add: s)
  have s4: "sep_at 4 (CHR ''-'') ?s"
    using sep_at_at [of Y 4 "CHR ''-''"] pY by (simp add: s)
  have s7: "sep_at 7 (CHR ''-'') ?s"
    using sep_at_at [of "Y @ ''-'' @ M" 7 "CHR ''-''"] pY pM by (simp add: s)
  have s10: "sep_at 10 (CHR ''T'') ?s"
    using sep_at_at [of "Y @ ''-'' @ M @ ''-'' @ D" 10 "CHR ''T''"] pY pM pD by (simp add: s)
  have s13: "sep_at 13 (CHR '':'') ?s"
    using sep_at_at [of "Y @ ''-'' @ M @ ''-'' @ D @ ''T'' @ H" 13 "CHR '':''"] pY pM pD pH
    by (simp add: s)
  have s16: "sep_at 16 (CHR '':'') ?s"
    using sep_at_at [of "Y @ ''-'' @ M @ ''-'' @ D @ ''T'' @ H @ '':'' @ Mi" 16 "CHR '':''"]
      pY pM pD pH pMi
    by (simp add: s)
  have "length (Y @ ''-'' @ M @ ''-'' @ D @ ''T'' @ H @ '':'' @ Mi @ '':'' @ S) = 19"
    using pY pM pD pH pMi pS by simp
  then have "drop 19 ((Y @ ''-'' @ M @ ''-'' @ D @ ''T'' @ H @ '':'' @ Mi @ '':'' @ S) @ F) = F"
    by (simp only: append_eq_conv_conj drop_append) simp
  then have d: "drop 19 ?s = F" by (simp add: s)
  have fr: "fraction_ok F"
    using pF by (auto simp add: F_def fraction_ok_def)
  from assms fY fM fD fH fMi fS s4 s7 s10 s13 s16 d fr show ?thesis
    by (simp add: iso8601_wf_def valid_datetime_def)
qed

lemma isoformat_sample: "isoformat dt_sample = ''2024-02-29T23:59:59.000005''"
  by code_simp

lemma isoformat_sample_whole_second:
  "isoformat (dt_sample\<lparr>microsecond := 0, year := 987\<rparr>) = ''0987-02-29T23:59:59''"
  by code_simp

lemma valid_sample: "valid_datetime dt_sample"
  by (simp add: valid_datetime_def dt_sample_def days_in_month_def is_leap_def)

text \<open>
  Claim C8. Whatever the process state (client present or not, credential set or not) and
  whatever the state of the database at the request, \<^verbatim>\<open>GET /health\<close> answers with
  status 200, a \<^verbatim>\<open>status\<close> field \<open>ok\<close> and a \<^verbatim>\<open>time\<close> field that is a
  well-formed ISO-8601 timestamp; the state of the dependencies shows only in the two
  boolean fields. The hypothesis is the range invariant of Python's datetime objects.
\<close>

theorem health_always_ok:
  "valid_datetime utcnow \<Longrightarrow>
   fst (app p db utcnow GET_health) = p \<and>
   status_code (snd (app p db utcnow GET_health)) = 200 \<and>
   json_field ''status'' (snd (app p db utcnow GET_health)) = Some (JStr ''ok'') \<and>
   json_field ''time'' (snd (app p db utcnow GET_health)) = Some (JStr (isoformat utcnow)) \<and>
   iso8601_wf (isoformat utcnow) \<and>
   json_field ''database_connected'' (snd (app p db utcnow GET_health))
     = Some (JBool (supabase p \<noteq> None)) \<and>
   json_field ''ai_available'' (snd (app p db utcnow GET_health))
     = Some (JBool (COHERE_API_KEY (settings p) \<noteq> None))"
  by (simp add: isoformat_wf health_flags) (simp add: health_def)

theorem health_always_ok_witness:
  "valid_datetime dt_sample \<and>
   status_code (snd (app (initial_process env_sample) db_unreachable dt_sample GET_health)) = 200 \<and>
   json_field ''status'' (snd (app (initial_process env_sample) db_unreachable dt_sample GET_health))
     = Some (JStr ''ok'') \<and>
   json_field ''database_connected''
     (snd (app (initial_process env_sample) db_unreachable dt_sample GET_health))
     = Some (JBool False) \<and>
   iso8601_wf (isoformat dt_sample)"
  using health_always_ok [OF valid_sample, of "initial_process env_sample" db_unreachable]
  by (simp add: valid_sample initial_process_def del: app.simps json_field.simps)

section \<open>Properties of the token service\<close>

text \<open>
  With the one algorithm that \<^verbatim>\<open>verify_token\<close> allows, the signature check of the
  library is an equation.
\<close>

lemma jwt_decode_cases:
  "jwt_decode L token key [HS256] now =
     (case split_token L token of
        None \<Rightarrow> Inl (TokenException Malformed)
      | Some (sp, sg) \<Rightarrow>
          (case parse_claims L sp of
             None \<Rightarrow> Inl (TokenException Malformed)
           | Some c \<Rightarrow>
               if sg \<noteq> sign L HS256 key sp then Inl (TokenException InvalidSignature)
               else if exp_claim c \<le> now then Inl (TokenException Expired)
               else Inr c))"
  by (simp add: jwt_decode_def split: option.split prod.split)

lemma sample_settings: "JWT_SECRET (load_settings env_sample) = ''default-secret''"
  by (simp add: load_settings_def getenv_default_def env_sample_def)

lemma sample_issue:
  "create_access_token sample_library (load_settings env_sample) 100 ''u1'' ''alice'' = Inr sample_token"
  by (simp add: create_access_token_def jwt_encode_def sample_library_def sample_claims_def sample_settings sample_token_def)


text \<open>
  Claim C2, evaluated where it fails. A token issued at POSIX time 100 on a host nine hours
  east of UTC carries the expiry 100 + 54000, not 100 + 86400: the payload's \<^verbatim>\<open>exp\<close> is
  the clock reading of \<^verbatim>\<open>datetime.utcnow().timestamp()\<close> plus 86400, and that reading
  is the time of issue minus the zone offset. In general the expiry is the time of issue
  plus 86400 minus the offset.
\<close>

theorem issued_expiry_off_utc:
  "create_access_token sample_library (load_settings env_sample)
      (naive_utc_timestamp 100 32400) ''u1'' ''alice''
     = jwt_encode sample_library
         \<lparr>user_id = ''u1'', username = ''alice'', exp_claim = 100 + 54000\<rparr>
         ''default-secret'' HS256 \<and>
   (100 + 54000 :: real) \<noteq> 100 + 86400 \<and>
   create_access_token L cfg (naive_utc_timestamp t utc_offset) uid uname
     = jwt_encode L \<lparr>user_id = uid, username = uname, exp_claim = t - utc_offset + 86400\<rparr>
         (JWT_SECRET cfg) HS256"
  by (simp add: create_access_token_def naive_utc_timestamp_def sample_settings)




text \<open>
  Claim C4. For every token and every time of verification, verification returns a claim
  if and only if the token carries that claim, its signature is the one the secret gives,
  and the expiry of the claim is strictly after the time of verification. The outcome
  does not change with the other configuration values; the state of the process is not
  an argument of the function.
\<close>

theorem verify_token_valid_iff:
  "(verify_token L cfg now token = Inr c \<longleftrightarrow>
      (\<exists>sp. split_token L token = Some (sp, sign L HS256 (JWT_SECRET cfg) sp) \<and>
         parse_claims L sp = Some c \<and> now < exp_claim c)) \<and>
   verify_token L (cfg\<lparr>COHERE_API_KEY := a, SUPABASE_URL := u, SUPABASE_KEY := k\<rparr>) now token
     = verify_token L cfg now token"
  by (auto simp add: verify_token_def jwt_decode_cases
        split: option.splits prod.splits if_splits)

text \<open>
  What \<^verbatim>\<open>get_current_user\<close> does. Without credentials it raises the HTTP exception
  with status 401; with credentials it returns or raises exactly what \<^verbatim>\<open>verify_token\<close>
  returns or raises for the token.
\<close>

theorem get_current_user_delegates:
  "get_current_user L cfg now None = Inl (HTTPException 401 ''Authorization header required'') \<and>
   status_code_of (HTTPException 401 ''Authorization header required'') = Some 401 \<and>
   get_current_user L cfg now (Some c) = verify_token L cfg now (credentials c)"
  by (simp add: get_current_user_def)

text \<open>
  Claim C5, evaluated where it fails. A bearer token that does not decode, and one that
  has expired, make \<^verbatim>\<open>get_current_user\<close> raise the library's exception unchanged. That
  exception is not an HTTP exception and carries no status code, 401 or other.
\<close>

theorem get_current_user_bad_token:
  "get_current_user sample_library (load_settings env_sample) 100
      (Some \<lparr>scheme = ''Bearer'', credentials = ''abc''\<rparr>) = Inl (TokenException Malformed) \<and>
   status_code_of (TokenException Malformed) = None \<and>
   get_current_user sample_library (load_settings env_sample) 86500
      (Some \<lparr>scheme = ''Bearer'', credentials = sample_token\<rparr>) = Inl (TokenException Expired) \<and>
   status_code_of (TokenException Expired) = None"
  by (simp add: get_current_user_def verify_token_def jwt_decode_cases sample_library_def
        split_last_dot_def sample_token_def sample_claims_def sample_settings)

end
